theory Spec2Isabelle
  imports Main
begin

section \<open>Data of the chat platform\<close>

text \<open>
  The fields of \<^verbatim>\<open>tgbotapi.User\<close>, \<^verbatim>\<open>tgbotapi.Chat\<close>, \<^verbatim>\<open>tgbotapi.Message\<close> and
  \<^verbatim>\<open>tgbotapi.ChatMember\<close> that bot.go reads. Go's \<^verbatim>\<open>int\<close> and \<^verbatim>\<open>int64\<close> are both
  64-bit here and are modelled as \<open>int\<close>; no arithmetic of the program can overflow
  except the store's counter increment, where the overflow is an error branch.
\<close>

record tg_user =
  User_ID :: int
  UserName :: string
  IsBot :: bool

record tg_chat =
  Chat_ID :: int
  Chat_Title :: string
  Chat_Description :: string

record tg_message =
  MessageID :: int
  From :: tg_user
  Chat :: tg_chat

record ChatMember =
  Member_User :: tg_user
  Status :: string

text \<open>
  messages.go (src/unnamed/part\_000) builds a \<^verbatim>\<open>tgbotapi.MessageConfig\<close> from a fixed
  Persian text with format slots. The text is kept as the template and its
  arguments; the other fields are the ones the source sets.
\<close>

datatype notice_text =
  WarnText int int
  | IntroductionText
  | AddedToWhitelistText string
  | CannotOperateWithoutCreatorText

record MessageConfig =
  Msg_ChatID :: int
  Text :: notice_text
  ParseMode :: string
  DisableNotification :: bool
  ReplyToMessageID :: int

definition NewMessage :: "int \<Rightarrow> notice_text \<Rightarrow> MessageConfig" where
  "NewMessage chatID text =
     \<lparr>Msg_ChatID = chatID, Text = text, ParseMode = [], DisableNotification = False,
      ReplyToMessageID = 0\<rparr>"

definition warnUser :: "int \<Rightarrow> int \<Rightarrow> int \<Rightarrow> MessageConfig" where
  "warnUser chatID current limit = NewMessage chatID (WarnText current limit)"

definition superGroupIntroduction :: "int \<Rightarrow> MessageConfig" where
  "superGroupIntroduction chatID =
     (NewMessage chatID IntroductionText)\<lparr>ParseMode := ''Markdown''\<rparr>"

definition botAddedToWhitelist :: "int \<Rightarrow> int \<Rightarrow> string \<Rightarrow> MessageConfig" where
  "botAddedToWhitelist chatID messageID username =
     (NewMessage chatID (AddedToWhitelistText username))
       \<lparr>DisableNotification := True, ReplyToMessageID := messageID\<rparr>"

definition botCannotOperateWithoutCreator :: "int \<Rightarrow> MessageConfig" where
  "botCannotOperateWithoutCreator chatID = NewMessage chatID CannotOperateWithoutCreatorText"

section \<open>Group settings and the Redis store\<close>

text \<open>The struct literal of \<^verbatim>\<open>initGroup\<close> (bot.go, lines 66-73) gives the fields.\<close>

record groupSettings =
  IsActive :: bool
  ShowWarn :: bool
  Limit :: int
  Creator :: int
  Title :: string
  Description :: string

text \<open>
  The settings hash of a chat as the store holds it. The wire encoding of the fields is
  outside the repository's sources in src/; the one field bot.go reads back raw is
  \<^verbatim>\<open>"creator"\<close> (line 250), a string that \<^verbatim>\<open>strconv.ParseInt\<close> may reject, so it is
  kept as the stored string. The other fields keep their Go types.
\<close>

record hash_fields =
  h_isActive :: bool
  h_showWarn :: bool
  h_limit :: int
  h_creator :: string
  h_title :: string
  h_description :: string

text \<open>
  Modelled from the spec: the key builders \<^verbatim>\<open>groupKey\<close>, \<^verbatim>\<open>adminKey\<close>,
  \<^verbatim>\<open>whiteListKey\<close> and \<^verbatim>\<open>membersKey\<close> are not in src/. The spec keeps settings and
  whitelist per chat, the admin-group set per creator and the warn counter per
  (chat, human) pair: four key families that never collide.
\<close>

datatype key =
  groupKey int
  | adminKey int
  | whiteListKey int
  | membersKey int int

datatype rval =
  RHash hash_fields
  | RSet "int set"
  | RInt int

type_synonym store = "key \<rightharpoonup> rval"

type_synonym error = string

datatype cmd =
  SADD key int
  | SREM key int
  | SISMEMBER key int
  | HMSET key hash_fields
  | HGET key string
  | HGETALL key
  | HSET key string bool
  | INCR key
  | DEL key

subsection \<open>Decimal integers: strconv\<close>

definition digit_val :: "char \<Rightarrow> int option" where
  "digit_val c =
     (let n = (of_char c :: int) in if 48 \<le> n \<and> n \<le> 57 then Some (n - 48) else None)"

fun parse_digits :: "int \<Rightarrow> string \<Rightarrow> int option" where
  "parse_digits acc [] = Some acc"
| "parse_digits acc (c # cs) =
     (case digit_val c of None \<Rightarrow> None | Some d \<Rightarrow> parse_digits (acc * 10 + d) cs)"

text \<open>The digits of \<^verbatim>\<open>strconv.ParseUint\<close>, base 10; its range check is in \<open>ParseInt\<close>.\<close>

definition ParseUint :: "string \<Rightarrow> int option" where
  "ParseUint s = (if s = [] then None else parse_digits 0 s)"

text \<open>
  \<^verbatim>\<open>strconv.ParseInt(s, 10, 64)\<close>: an optional sign, then at least one decimal digit,
  and the value within the signed 64-bit range; \<open>None\<close> is a non-nil error.
\<close>

definition ParseInt :: "string \<Rightarrow> int option" where
  "ParseInt s =
     (case s of
        [] \<Rightarrow> None
      | c # cs \<Rightarrow>
          (let neg = (c = CHR ''-'');
               ds = (if c = CHR ''+'' \<or> c = CHR ''-'' then cs else s)
           in case ParseUint ds of
                None \<Rightarrow> None
              | Some un \<Rightarrow>
                  if \<not> neg \<and> un \<ge> 2 ^ 63 then None
                  else if neg \<and> un > 2 ^ 63 then None
                  else Some (if neg then - un else un)))"

function decimal :: "nat \<Rightarrow> string" where
  "decimal n =
     (if n < 10 then [char_of (48 + n)]
      else decimal (n div 10) @ [char_of (48 + n mod 10)])"
  by pat_completeness auto
termination
  by (relation "measure id") auto

declare decimal.simps [simp del]

definition FormatInt :: "int \<Rightarrow> string" where
  "FormatInt i = (if i < 0 then CHR ''-'' # decimal (nat (- i)) else decimal (nat i))"

text \<open>
  Modelled from the spec: \<^verbatim>\<open>groupSettings.Map()\<close> is not in src/. It yields the six
  fields of the settings for \<^verbatim>\<open>HMSet\<close>; the creator is stored in decimal, which is what
  the \<^verbatim>\<open>ParseInt\<close> of \<^verbatim>\<open>processLeftUser\<close> reads back.
\<close>

definition Map :: "groupSettings \<Rightarrow> hash_fields" where
  "Map s =
     \<lparr>h_isActive = IsActive s, h_showWarn = ShowWarn s, h_limit = Limit s,
      h_creator = FormatInt (Creator s), h_title = Title s, h_description = Description s\<rparr>"

subsection \<open>Redis commands on the store\<close>

text \<open>
  Each command returns its reply and the new store, or the error reply of the
  server. A command on a key that holds another type of value is refused; removing the
  last member of a set removes the key; \<^verbatim>\<open>HGET\<close> on a missing key or field is the
  nil reply, which go-redis returns as the error \<^verbatim>\<open>redis.Nil\<close>.
\<close>

definition sadd :: "key \<Rightarrow> int \<Rightarrow> store \<Rightarrow> error + int \<times> store" where
  "sadd k x st =
     (case st k of
        None \<Rightarrow> Inr (1, st(k \<mapsto> RSet {x}))
      | Some (RSet S) \<Rightarrow> Inr (if x \<in> S then 0 else 1, st(k \<mapsto> RSet (insert x S)))
      | Some _ \<Rightarrow> Inl ''WRONGTYPE'')"

definition srem :: "key \<Rightarrow> int \<Rightarrow> store \<Rightarrow> error + int \<times> store" where
  "srem k x st =
     (case st k of
        None \<Rightarrow> Inr (0, st)
      | Some (RSet S) \<Rightarrow>
          Inr (if x \<in> S then 1 else 0,
               if S - {x} = {} then st(k := None) else st(k \<mapsto> RSet (S - {x})))
      | Some _ \<Rightarrow> Inl ''WRONGTYPE'')"

definition sismember :: "key \<Rightarrow> int \<Rightarrow> store \<Rightarrow> error + bool \<times> store" where
  "sismember k x st =
     (case st k of
        None \<Rightarrow> Inr (False, st)
      | Some (RSet S) \<Rightarrow> Inr (x \<in> S, st)
      | Some _ \<Rightarrow> Inl ''WRONGTYPE'')"

definition hmset :: "key \<Rightarrow> hash_fields \<Rightarrow> store \<Rightarrow> error + unit \<times> store" where
  "hmset k h st =
     (case st k of
        None \<Rightarrow> Inr ((), st(k \<mapsto> RHash h))
      | Some (RHash _) \<Rightarrow> Inr ((), st(k \<mapsto> RHash h))
      | Some _ \<Rightarrow> Inl ''WRONGTYPE'')"

text \<open>Only the field the source reads raw is rendered as a string.\<close>

definition hfield :: "hash_fields \<Rightarrow> string \<Rightarrow> string option" where
  "hfield h f = (if f = ''creator'' then Some (h_creator h) else None)"

definition hget :: "key \<Rightarrow> string \<Rightarrow> store \<Rightarrow> error + string \<times> store" where
  "hget k f st =
     (case st k of
        None \<Rightarrow> Inl ''redis: nil''
      | Some (RHash h) \<Rightarrow>
          (case hfield h f of None \<Rightarrow> Inl ''redis: nil'' | Some v \<Rightarrow> Inr (v, st))
      | Some _ \<Rightarrow> Inl ''WRONGTYPE'')"

definition hgetall :: "key \<Rightarrow> store \<Rightarrow> error + hash_fields option \<times> store" where
  "hgetall k st =
     (case st k of
        None \<Rightarrow> Inr (None, st)
      | Some (RHash h) \<Rightarrow> Inr (Some h, st)
      | Some _ \<Rightarrow> Inl ''WRONGTYPE'')"

text \<open>
  Modelled from the spec: the write behind \<^verbatim>\<open>changeGroupActiveStatus\<close> is not in src/.
  The spec sets \<open>isActive\<close> of the chat's settings, and settings exist only after
  initialization: on a missing key the store is left as it is.
\<close>

definition hset :: "key \<Rightarrow> string \<Rightarrow> bool \<Rightarrow> store \<Rightarrow> error + unit \<times> store" where
  "hset k f b st =
     (case st k of
        None \<Rightarrow> Inr ((), st)
      | Some (RHash h) \<Rightarrow>
          Inr ((), if f = ''isActive'' then st(k \<mapsto> RHash (h\<lparr>h_isActive := b\<rparr>)) else st)
      | Some _ \<Rightarrow> Inl ''WRONGTYPE'')"

definition incr :: "key \<Rightarrow> store \<Rightarrow> error + int \<times> store" where
  "incr k st =
     (case st k of
        None \<Rightarrow> Inr (1, st(k \<mapsto> RInt 1))
      | Some (RInt n) \<Rightarrow>
          if n \<ge> 2 ^ 63 - 1 then Inl ''ERR increment or decrement would overflow''
          else Inr (n + 1, st(k \<mapsto> RInt (n + 1)))
      | Some _ \<Rightarrow> Inl ''WRONGTYPE'')"

definition del :: "key \<Rightarrow> store \<Rightarrow> error + int \<times> store" where
  "del k st = Inr (if st k = None then 0 else 1, st(k := None))"

text \<open>The effect of a queued command, its reply dropped (\<^verbatim>\<open>_, err = pipe.Exec()\<close>).\<close>

definition forget :: "error + 'a \<times> store \<Rightarrow> error + store" where
  "forget r = (case r of Inl e \<Rightarrow> Inl e | Inr (_, st) \<Rightarrow> Inr st)"

fun effect :: "cmd \<Rightarrow> store \<Rightarrow> error + store" where
  "effect (SADD k x) st = forget (sadd k x st)"
| "effect (SREM k x) st = forget (srem k x st)"
| "effect (SISMEMBER k x) st = forget (sismember k x st)"
| "effect (HMSET k h) st = forget (hmset k h st)"
| "effect (HGET k f) st = forget (hget k f st)"
| "effect (HGETALL k) st = forget (hgetall k st)"
| "effect (HSET k f b) st = forget (hset k f b st)"
| "effect (INCR k) st = forget (incr k st)"
| "effect (DEL k) st = forget (del k st)"

text \<open>What the store holds, read without a command.\<close>

definition smembers :: "store \<Rightarrow> key \<Rightarrow> int set" where
  "smembers st k = (case st k of Some (RSet S) \<Rightarrow> S | _ \<Rightarrow> {})"


definition active :: "store \<Rightarrow> int \<Rightarrow> bool" where
  "active st chatID = (case st (groupKey chatID) of Some (RHash h) \<Rightarrow> h_isActive h | _ \<Rightarrow> False)"

section \<open>The outside world\<close>

text \<open>
  Every call that leaves the process: to the Telegram gateway or to Redis. The world
  is the store and the calls made so far, in order. The environment answers a call
  from its position in that sequence and the call itself: for a gateway call the
  \<^verbatim>\<open>APIResponse\<close> fields and the Go error, for \<^verbatim>\<open>GetChatAdministrators\<close> the members,
  for a Redis command whether the command fails before it reaches the store.
\<close>

datatype call =
  GetChatAdministrators int
  | Send MessageConfig
  | LeaveChat int
  | KickChatMember int int int
  | DeleteMessage int int
  | Redis cmd

record reply =
  Ok :: bool
  ErrorCode :: int
  err :: "error option"
  members :: "ChatMember list"

record world =
  redis :: store
  trace :: "call list"

type_synonym env = "nat \<Rightarrow> call \<Rightarrow> reply"

text \<open>The environment's answer to a call made in world \<open>w\<close>.\<close>

definition answer :: "env \<Rightarrow> world \<Rightarrow> call \<Rightarrow> reply" where
  "answer env w c = env (length (trace w)) c"

definition ask :: "env \<Rightarrow> call \<Rightarrow> world \<Rightarrow> reply \<times> world" where
  "ask env c w = (answer env w c, w\<lparr>trace := trace w @ [c]\<rparr>)"

text \<open>
  One Redis command sent on its own; the result pairs the Go error with the reply,
  as \<^verbatim>\<open>.Result()\<close> does.
\<close>

definition command :: "env \<Rightarrow> cmd \<Rightarrow> (store \<Rightarrow> error + 'a \<times> store) \<Rightarrow> world \<Rightarrow> (error + 'a) \<times> world" where
  "command env c f w =
     (let (r, w1) = ask env (Redis c) w
      in case err r of
           Some e \<Rightarrow> (Inl e, w1)
         | None \<Rightarrow>
             (case f (redis w1) of
                Inl e \<Rightarrow> (Inl e, w1)
              | Inr (v, st) \<Rightarrow> (Inr v, w1\<lparr>redis := st\<rparr>)))"

definition SAdd :: "env \<Rightarrow> key \<Rightarrow> int \<Rightarrow> world \<Rightarrow> (error + int) \<times> world" where
  "SAdd env k x = command env (SADD k x) (sadd k x)"

definition SRem :: "env \<Rightarrow> key \<Rightarrow> int \<Rightarrow> world \<Rightarrow> (error + int) \<times> world" where
  "SRem env k x = command env (SREM k x) (srem k x)"

definition SIsMember :: "env \<Rightarrow> key \<Rightarrow> int \<Rightarrow> world \<Rightarrow> (error + bool) \<times> world" where
  "SIsMember env k x = command env (SISMEMBER k x) (sismember k x)"

definition HGet :: "env \<Rightarrow> key \<Rightarrow> string \<Rightarrow> world \<Rightarrow> (error + string) \<times> world" where
  "HGet env k f = command env (HGET k f) (hget k f)"

definition Del :: "env \<Rightarrow> key \<Rightarrow> world \<Rightarrow> (error + int) \<times> world" where
  "Del env k = command env (DEL k) (del k)"

text \<open>
  \<^verbatim>\<open>s.redis.Pipeline()\<close> of go-redis queues commands and \<^verbatim>\<open>Exec\<close> sends them in one
  round trip, without \<^verbatim>\<open>MULTI\<close>/\<^verbatim>\<open>EXEC\<close> (that is \<^verbatim>\<open>TxPipeline\<close>): the server runs
  and answers each command on its own, a failed command does not stop or undo the
  others, and \<^verbatim>\<open>Exec\<close> returns the first error among the replies.
\<close>

fun Exec :: "env \<Rightarrow> cmd list \<Rightarrow> world \<Rightarrow> error option \<times> world" where
  "Exec env [] w = (None, w)"
| "Exec env (c # cs) w =
     (let (r, w1) = ask env (Redis c) w;
          (e1, w2) =
            (case err r of
               Some e \<Rightarrow> (Some e, w1)
             | None \<Rightarrow>
                 (case effect c (redis w1) of
                    Inl e \<Rightarrow> (Some e, w1)
                  | Inr st \<Rightarrow> (None, w1\<lparr>redis := st\<rparr>)));
          (e2, w3) = Exec env cs w2
      in (case e1 of Some e \<Rightarrow> Some e | None \<Rightarrow> e2, w3))"

section \<open>Group state accessors\<close>

text \<open>
  Modelled from the spec: \<^verbatim>\<open>findGroupByID\<close> is not in src/. It reads the settings
  hash of the chat; a missing hash is "no settings" without an error (the caller tests
  \<^verbatim>\<open>groupSettings == nil\<close>), a failed read or a stored creator that is not a number
  is an error.
\<close>

definition findGroupByID :: "env \<Rightarrow> int \<Rightarrow> world \<Rightarrow> (error + groupSettings option) \<times> world" where
  "findGroupByID env chatID w =
     (case command env (HGETALL (groupKey chatID)) (hgetall (groupKey chatID)) w of
        (Inl e, w1) \<Rightarrow> (Inl e, w1)
      | (Inr None, w1) \<Rightarrow> (Inr None, w1)
      | (Inr (Some h), w1) \<Rightarrow>
          (case ParseInt (h_creator h) of
             None \<Rightarrow> (Inl ''invalid creator'', w1)
           | Some c \<Rightarrow>
               (Inr (Some \<lparr>IsActive = h_isActive h, ShowWarn = h_showWarn h, Limit = h_limit h,
                           Creator = c, Title = h_title h, Description = h_description h\<rparr>), w1)))"

text \<open>
  Modelled from the spec: \<^verbatim>\<open>isGroupActive\<close> is not in src/. It reads the chat's
  \<open>isActive\<close>; a chat without settings is not active.
\<close>

definition isGroupActive :: "env \<Rightarrow> int \<Rightarrow> world \<Rightarrow> (error + bool) \<times> world" where
  "isGroupActive env chatID w =
     (case command env (HGETALL (groupKey chatID)) (hgetall (groupKey chatID)) w of
        (Inl e, w1) \<Rightarrow> (Inl e, w1)
      | (Inr None, w1) \<Rightarrow> (Inr False, w1)
      | (Inr (Some h), w1) \<Rightarrow> (Inr (h_isActive h), w1))"

text \<open>
  Modelled from the spec: \<^verbatim>\<open>changeGroupActiveStatus\<close> is not in src/. It persists
  \<open>isActive\<close> for the chat and returns the store's error.
\<close>

definition changeGroupActiveStatus :: "env \<Rightarrow> int \<Rightarrow> bool \<Rightarrow> world \<Rightarrow> error option \<times> world" where
  "changeGroupActiveStatus env chatID status w =
     (case command env (HSET (groupKey chatID) ''isActive'' status)
             (hset (groupKey chatID) ''isActive'' status) w of
        (Inl e, w1) \<Rightarrow> (Some e, w1)
      | (Inr _, w1) \<Rightarrow> (None, w1))"

text \<open>
  Modelled from the spec: \<^verbatim>\<open>incrementMemberWarns\<close> is not in src/. It is one atomic
  increment of the counter of (chat, human) at the store and returns the new value.
\<close>

definition incrementMemberWarns :: "env \<Rightarrow> int \<Rightarrow> int \<Rightarrow> world \<Rightarrow> (error + int) \<times> world" where
  "incrementMemberWarns env chatID userID =
     command env (INCR (membersKey chatID userID)) (incr (membersKey chatID userID))"

text \<open>
  Modelled from the spec: \<^verbatim>\<open>findCreator\<close> is not in src/. It locates the
  owner-role administrator, whose status the platform reports as \<^verbatim>\<open>"creator"\<close>;
  \<open>None\<close> is the nil pointer.
\<close>

fun findCreator :: "ChatMember list \<Rightarrow> tg_user option" where
  "findCreator [] = None"
| "findCreator (m # ms) = (if Status m = ''creator'' then Some (Member_User m) else findCreator ms)"

section \<open>The moderation engine (bot.go)\<close>

text \<open>
  \<^verbatim>\<open>log.Fatal\<close> of logrus writes the entry and calls \<^verbatim>\<open>os.Exit(1)\<close>: the whole process
  ends, not only the goroutine of the event. A flow either comes to that or returns.
  The other log calls have no effect on the store or the gateway and are left out.
\<close>

datatype outcome = Exited | Returned

datatype 'a exit = Fatal | Ret 'a

text \<open>\<^verbatim>\<open>initGroup\<close>, lines 28-84. \<open>Ret None\<close> is the nil pointer.\<close>

definition defaultSettings :: "tg_user \<Rightarrow> tg_message \<Rightarrow> groupSettings" where
  "defaultSettings creator message =
     \<lparr>IsActive = False, ShowWarn = True, Limit = 3, Creator = User_ID creator,
      Title = Chat_Title (Chat message), Description = Chat_Description (Chat message)\<rparr>"

definition initGroup :: "env \<Rightarrow> tg_message \<Rightarrow> world \<Rightarrow> groupSettings option exit \<times> world" where
  "initGroup env message w =
     (let chatID = Chat_ID (Chat message);
          (r, w1) = ask env (GetChatAdministrators chatID) w
      in case err r of
           Some e \<Rightarrow> (Ret None, w1)
         | None \<Rightarrow>
             (let (r2, w2) = ask env (Send (superGroupIntroduction chatID)) w1
              in case findCreator (members r) of
                   None \<Rightarrow>
                     (let (r3, w3) = ask env (Send (botCannotOperateWithoutCreator chatID)) w2;
                          (r4, w4) = ask env (LeaveChat chatID) w3
                      in (Ret None, w4))
                 | Some creator \<Rightarrow>
                     (let settings = defaultSettings creator message;
                          (e, w3) = Exec env [SADD (adminKey (User_ID creator)) chatID,
                                              HMSET (groupKey chatID) (Map settings)] w2
                      in case e of
                           Some _ \<Rightarrow> (Fatal, w3)
                         | None \<Rightarrow> (Ret (Some settings), w3))))"

text \<open>\<^verbatim>\<open>kickUser\<close>, lines 86-99, and \<^verbatim>\<open>deleteMessage\<close>, lines 101-109.\<close>

definition kickUser :: "env \<Rightarrow> int \<Rightarrow> int \<Rightarrow> world \<Rightarrow> (bool \<times> error option) \<times> world" where
  "kickUser env chatID userID w =
     (let (response, w1) = ask env (KickChatMember chatID userID 400) w
      in if ErrorCode response = 400 then ((False, None), w1)
         else ((Ok response, err response), w1))"

definition deleteMessage :: "env \<Rightarrow> int \<Rightarrow> int \<Rightarrow> world \<Rightarrow> (bool \<times> error option) \<times> world" where
  "deleteMessage env chatID messageID w =
     (let (response, w1) = ask env (DeleteMessage chatID messageID) w
      in if ErrorCode response = 400 then ((False, None), w1)
         else ((Ok response, err response), w1))"

text \<open>
  A reply on which \<^verbatim>\<open>kickUser\<close> returns \<^verbatim>\<open>(true, nil)\<close>: the member was removed.
\<close>

definition removed :: "reply \<Rightarrow> bool" where
  "removed r = (ErrorCode r \<noteq> 400 \<and> Ok r \<and> err r = None)"

text \<open>
  The deactivation both loops and \<^verbatim>\<open>processBotMessage\<close> perform after a removal that
  was not permitted (lines 191-196, 215-220, 312-317).
\<close>

definition deactivate :: "env \<Rightarrow> int \<Rightarrow> world \<Rightarrow> outcome \<times> world" where
  "deactivate env chatID w =
     (case changeGroupActiveStatus env chatID False w of
        (Some e, w1) \<Rightarrow> (Exited, w1)
      | (None, w1) \<Rightarrow> (Returned, w1))"

text \<open>
  \<^verbatim>\<open>processNewUsers\<close>, lines 111-237. The first loop (lines 124-134) initializes the
  group whenever the moderator itself is among the new members; \<open>Inl\<close> ends the
  function (\<open>Returned\<close> is its \<^verbatim>\<open>return\<close>), \<open>Inr\<close> carries the settings on.
\<close>

fun init_loop :: "env \<Rightarrow> int \<Rightarrow> tg_message \<Rightarrow> tg_user list \<Rightarrow> groupSettings option \<Rightarrow> world
    \<Rightarrow> (outcome + groupSettings option) \<times> world" where
  "init_loop env self message [] gs w = (Inr gs, w)"
| "init_loop env self message (user # users) gs w =
     (if User_ID user = self then
        (case initGroup env message w of
           (Fatal, w1) \<Rightarrow> (Inl Exited, w1)
         | (Ret None, w1) \<Rightarrow> (Inl Returned, w1)
         | (Ret (Some settings), w1) \<Rightarrow> init_loop env self message users (Some settings) w1)
      else init_loop env self message users gs w)"

text \<open>Lines 151-166: an account the recorded creator added.\<close>

definition add_to_whitelist :: "env \<Rightarrow> tg_message \<Rightarrow> tg_user \<Rightarrow> world \<Rightarrow> outcome \<times> world" where
  "add_to_whitelist env message user w =
     (case SAdd env (whiteListKey (Chat_ID (Chat message))) (User_ID user) w of
        (Inl e, w1) \<Rightarrow> (Exited, w1)
      | (Inr added, w1) \<Rightarrow>
          if added > 0 then
            (let (r, w2) = ask env (Send (botAddedToWhitelist (Chat_ID (Chat message))
                                            (MessageID message) (UserName user))) w1
             in (Returned, w2))
          else (Returned, w1))"

text \<open>Lines 209-228: what follows the attempt to remove the originating actor.\<close>

definition after_actor_kick :: "env \<Rightarrow> tg_message \<Rightarrow> bool \<times> error option \<Rightarrow> world \<Rightarrow> outcome \<times> world" where
  "after_actor_kick env message res w =
     (case res of
        (ok, Some e) \<Rightarrow> (Returned, w)
      | (ok, None) \<Rightarrow>
          if \<not> ok then deactivate env (Chat_ID (Chat message)) w
          else
            (case Del env (membersKey (Chat_ID (Chat message)) (User_ID (From message))) w of
               (Inl e, w1) \<Rightarrow> (Exited, w1)
             | (Inr _, w1) \<Rightarrow> (Returned, w1)))"

text \<open>Lines 206-235: the incremented counter against the limit.\<close>

definition after_increment :: "env \<Rightarrow> groupSettings \<Rightarrow> tg_message \<Rightarrow> int \<Rightarrow> world \<Rightarrow> outcome \<times> world" where
  "after_increment env gs message usrWarns w =
     (if usrWarns \<ge> Limit gs then
        (case kickUser env (Chat_ID (Chat message)) (User_ID (From message)) w of
           (res, w1) \<Rightarrow> after_actor_kick env message res w1)
      else if ShowWarn gs then
        (let (r, w1) = ask env (Send (warnUser (Chat_ID (Chat message)) usrWarns (Limit gs))) w
         in (Returned, w1))
      else (Returned, w))"

text \<open>Lines 184-236: what follows the attempt to remove the joined account.\<close>

definition after_bot_kick :: "env \<Rightarrow> groupSettings \<Rightarrow> tg_message \<Rightarrow> bool \<times> error option \<Rightarrow> world
    \<Rightarrow> outcome \<times> world" where
  "after_bot_kick env gs message res w =
     (case res of
        (ok, Some e) \<Rightarrow> (Returned, w)
      | (ok, None) \<Rightarrow>
          if \<not> ok then deactivate env (Chat_ID (Chat message)) w
          else
            (case incrementMemberWarns env (Chat_ID (Chat message)) (User_ID (From message)) w of
               (Inl e, w1) \<Rightarrow> (Exited, w1)
             | (Inr usrWarns, w1) \<Rightarrow> after_increment env gs message usrWarns w1))"

text \<open>
  The body of the second loop, lines 141-236, for one joined account. Every \<^verbatim>\<open>continue\<close>
  is \<open>Returned\<close>: the iteration is over and the loop goes on.
\<close>

definition moderate_user :: "env \<Rightarrow> int \<Rightarrow> groupSettings \<Rightarrow> tg_message \<Rightarrow> tg_user \<Rightarrow> world
    \<Rightarrow> outcome \<times> world" where
  "moderate_user env self gs message user w =
     (if User_ID user = self then (Returned, w)
      else if User_ID (From message) = Creator gs then add_to_whitelist env message user w
      else if \<not> IsActive gs then (Returned, w)
      else
        (case SIsMember env (whiteListKey (Chat_ID (Chat message))) (User_ID user) w of
           (Inl e, w1) \<Rightarrow> (Exited, w1)
         | (Inr isApproved, w1) \<Rightarrow>
             if isApproved then (Returned, w1)
             else
               (case kickUser env (Chat_ID (Chat message)) (User_ID user) w1 of
                  (res, w2) \<Rightarrow> after_bot_kick env gs message res w2)))"

fun moderate_loop :: "env \<Rightarrow> int \<Rightarrow> groupSettings \<Rightarrow> tg_message \<Rightarrow> tg_user list \<Rightarrow> world
    \<Rightarrow> outcome \<times> world" where
  "moderate_loop env self gs message [] w = (Returned, w)"
| "moderate_loop env self gs message (user # users) w =
     (case moderate_user env self gs message user w of
        (Exited, w1) \<Rightarrow> (Exited, w1)
      | (Returned, w1) \<Rightarrow> moderate_loop env self gs message users w1)"

definition processNewUsers :: "env \<Rightarrow> int \<Rightarrow> tg_message \<Rightarrow> tg_user list \<Rightarrow> world \<Rightarrow> outcome \<times> world" where
  "processNewUsers env self message users w =
     (case findGroupByID env (Chat_ID (Chat message)) w of
        (Inl e, w1) \<Rightarrow> (Exited, w1)
      | (Inr groupSettings, w1) \<Rightarrow>
          (case init_loop env self message users groupSettings w1 of
             (Inl out, w2) \<Rightarrow> (out, w2)
           | (Inr None, w2) \<Rightarrow> (Returned, w2)
           | (Inr (Some gs), w2) \<Rightarrow> moderate_loop env self gs message users w2))"

text \<open>\<^verbatim>\<open>processLeftUser\<close>, lines 239-280: the clean-up, lines 246-270, then lines 272-279.\<close>

definition cleanup_cmds :: "int \<Rightarrow> string \<Rightarrow> cmd list" where
  "cleanup_cmds chatID creatorStr =
     [DEL (groupKey chatID), DEL (whiteListKey chatID)] @
     (case ParseInt creatorStr of
        Some admin \<Rightarrow> [SREM (adminKey admin) chatID]
      | None \<Rightarrow> [])"

definition clean_up :: "env \<Rightarrow> tg_message \<Rightarrow> world \<Rightarrow> outcome \<times> world" where
  "clean_up env message w =
     (case HGet env (groupKey (Chat_ID (Chat message))) ''creator'' w of
        (Inl e, w1) \<Rightarrow> (Exited, w1)
      | (Inr creatorStr, w1) \<Rightarrow>
          (case Exec env (cleanup_cmds (Chat_ID (Chat message)) creatorStr) w1 of
             (Some e, w2) \<Rightarrow> (Exited, w2)
           | (None, w2) \<Rightarrow> (Returned, w2)))"

definition forget_bot :: "env \<Rightarrow> tg_message \<Rightarrow> tg_user \<Rightarrow> world \<Rightarrow> outcome \<times> world" where
  "forget_bot env message leftChatMember w =
     (if IsBot leftChatMember then
        (case SRem env (whiteListKey (Chat_ID (Chat message))) (User_ID leftChatMember) w of
           (Inl e, w1) \<Rightarrow> (Exited, w1)
         | (Inr _, w1) \<Rightarrow> (Returned, w1))
      else (Returned, w))"

definition processLeftUser :: "env \<Rightarrow> int \<Rightarrow> tg_message \<Rightarrow> tg_user \<Rightarrow> world \<Rightarrow> outcome \<times> world" where
  "processLeftUser env self message leftChatMember w =
     (if self = User_ID leftChatMember then
        (case clean_up env message w of
           (Exited, w1) \<Rightarrow> (Exited, w1)
         | (Returned, w1) \<Rightarrow> forget_bot env message leftChatMember w1)
      else forget_bot env message leftChatMember w)"

text \<open>\<^verbatim>\<open>processBotMessage\<close>, lines 282-331. Lines 320-329 attempt the deletion.\<close>

definition delete_offending :: "env \<Rightarrow> tg_message \<Rightarrow> world \<Rightarrow> outcome \<times> world" where
  "delete_offending env message w =
     (case deleteMessage env (Chat_ID (Chat message)) (MessageID message) w of
        (res, w1) \<Rightarrow> (Returned, w1))"

text \<open>
  Lines 308-329: after the attempt to remove the sender. On an error the source logs it
  (line 309) and, with no \<^verbatim>\<open>return\<close> in that branch, goes on to line 320.
\<close>

definition after_sender_kick :: "env \<Rightarrow> tg_message \<Rightarrow> bool \<times> error option \<Rightarrow> world \<Rightarrow> outcome \<times> world" where
  "after_sender_kick env message res w =
     (case res of
        (ok, Some e) \<Rightarrow> delete_offending env message w
      | (ok, None) \<Rightarrow>
          if \<not> ok then deactivate env (Chat_ID (Chat message)) w
          else delete_offending env message w)"

definition processBotMessage :: "env \<Rightarrow> tg_message \<Rightarrow> world \<Rightarrow> outcome \<times> world" where
  "processBotMessage env message w =
     (case isGroupActive env (Chat_ID (Chat message)) w of
        (Inl e, w1) \<Rightarrow> (Exited, w1)
      | (Inr isActive, w1) \<Rightarrow>
          if \<not> isActive then (Returned, w1)
          else
            (case SIsMember env (whiteListKey (Chat_ID (Chat message))) (User_ID (From message)) w1 of
               (Inl e, w2) \<Rightarrow> (Exited, w2)
             | (Inr isApproved, w2) \<Rightarrow>
                 if isApproved then (Returned, w2)
                 else
                   (case kickUser env (Chat_ID (Chat message)) (User_ID (From message)) w2 of
                      (res, w3) \<Rightarrow> after_sender_kick env message res w3)))"

text \<open>
  No chat that is inactive (or has no settings) in world \<open>w\<close> is active in world \<open>w'\<close>.
\<close>

definition no_activation :: "world \<Rightarrow> world \<Rightarrow> bool" where
  "no_activation w w' = (\<forall>chatID. active (redis w') chatID \<longrightarrow> active (redis w) chatID)"

section \<open>What the specification expects of the creator path\<close>


section \<open>Scenario data\<close>

text \<open>
  The chat, accounts and settings of the scenarios of the specification: chat 1,
  creator 100, human 200, the unauthorized bots 901 and 902, the moderator 5.
\<close>

definition reply_ok :: reply where
  "reply_ok = \<lparr>Ok = True, ErrorCode = 0, err = None, members = []\<rparr>"

definition reply_denied :: reply where
  "reply_denied = \<lparr>Ok = False, ErrorCode = 400, err = Some ''Bad Request'', members = []\<rparr>"

definition reply_failed :: reply where
  "reply_failed = \<lparr>Ok = False, ErrorCode = 0, err = Some ''i/o timeout'', members = []\<rparr>"

definition account :: "int \<Rightarrow> bool \<Rightarrow> tg_user" where
  "account n b = \<lparr>User_ID = n, UserName = ''account'', IsBot = b\<rparr>"

definition message_from :: "int \<Rightarrow> tg_message" where
  "message_from n =
     \<lparr>MessageID = 7, From = account n False,
      Chat = \<lparr>Chat_ID = 1, Chat_Title = ''chat'', Chat_Description = []\<rparr>\<rparr>"

definition settings_A :: groupSettings where
  "settings_A =
     \<lparr>IsActive = True, ShowWarn = True, Limit = 3, Creator = 100, Title = ''chat'',
      Description = []\<rparr>"

definition hash_A :: hash_fields where
  "hash_A =
     \<lparr>h_isActive = True, h_showWarn = True, h_limit = 3, h_creator = ''100'',
      h_title = ''chat'', h_description = []\<rparr>"

definition world_A :: world where
  "world_A = \<lparr>redis = [groupKey 1 \<mapsto> RHash hash_A], trace = []\<rparr>"

definition world_B :: world where
  "world_B = \<lparr>redis = [groupKey 1 \<mapsto> RHash hash_A, membersKey 1 200 \<mapsto> RInt 2], trace = []\<rparr>"

definition world_L :: world where
  "world_L =
     \<lparr>redis = [groupKey 1 \<mapsto> RHash hash_A, whiteListKey 1 \<mapsto> RSet {777},
               adminKey 100 \<mapsto> RSet {1}],
      trace = []\<rparr>"

definition world_corrupt :: world where
  "world_corrupt =
     \<lparr>redis = [groupKey 1 \<mapsto> RHash (hash_A\<lparr>h_creator := ''10O''\<rparr>),
               whiteListKey 1 \<mapsto> RSet {777}, adminKey 100 \<mapsto> RSet {1}],
      trace = []\<rparr>"

definition world_empty :: world where
  "world_empty = \<lparr>redis = Map.empty, trace = []\<rparr>"

definition env_ok :: env where
  "env_ok n c = reply_ok"

definition env_kick_fails :: env where
  "env_kick_fails n c = (case c of KickChatMember _ _ _ \<Rightarrow> reply_failed | _ \<Rightarrow> reply_ok)"

definition env_kick_denied :: env where
  "env_kick_denied n c = (case c of KickChatMember _ _ _ \<Rightarrow> reply_denied | _ \<Rightarrow> reply_ok)"

definition env_actor_stays :: env where
  "env_actor_stays n c =
     (case c of KickChatMember _ u _ \<Rightarrow> if u = 200 then reply_failed else reply_ok | _ \<Rightarrow> reply_ok)"

definition env_store_down :: env where
  "env_store_down n c = (case c of Redis _ \<Rightarrow> reply_failed | _ \<Rightarrow> reply_ok)"

definition reply_admins :: reply where
  "reply_admins =
     reply_ok\<lparr>members := [\<lparr>Member_User = account 300 False, Status = ''administrator''\<rparr>,
                            \<lparr>Member_User = account 100 False, Status = ''creator''\<rparr>]\<rparr>"

definition env_init :: env where
  "env_init n c = (case c of GetChatAdministrators _ \<Rightarrow> reply_admins | _ \<Rightarrow> reply_ok)"

definition env_hmset_fails :: env where
  "env_hmset_fails n c =
     (case c of
        GetChatAdministrators _ \<Rightarrow> reply_admins
      | Redis (HMSET _ _) \<Rightarrow> reply_failed
      | _ \<Rightarrow> reply_ok)"

definition env_second_del_fails :: env where
  "env_second_del_fails n c =
     (case c of Redis (DEL (whiteListKey _)) \<Rightarrow> reply_failed | _ \<Rightarrow> reply_ok)"

section \<open>Basic facts\<close>

lemmas fixture_defs = reply_ok_def reply_denied_def reply_failed_def account_def message_from_def
  settings_A_def hash_A_def world_A_def world_B_def world_L_def world_corrupt_def world_empty_def env_ok_def env_kick_fails_def
  env_kick_denied_def env_actor_stays_def env_store_down_def reply_admins_def env_init_def
  env_hmset_fails_def env_second_del_fails_def

lemmas store_defs = hgetall_def sismember_def hset_def sadd_def srem_def hget_def hfield_def
  del_def incr_def hmset_def forget_def

lemmas client_defs = command_def ask_def SIsMember_def SAdd_def SRem_def HGet_def Del_def
  incrementMemberWarns_def changeGroupActiveStatus_def isGroupActive_def findGroupByID_def

lemmas notice_defs = superGroupIntroduction_def botCannotOperateWithoutCreator_def
  botAddedToWhitelist_def warnUser_def NewMessage_def

lemmas engine_defs = processBotMessage_def after_sender_kick_def delete_offending_def
  deactivate_def processNewUsers_def moderate_user_def after_bot_kick_def after_increment_def
  after_actor_kick_def add_to_whitelist_def initGroup_def processLeftUser_def clean_up_def
  forget_bot_def cleanup_cmds_def defaultSettings_def Map_def kickUser_def deleteMessage_def

lemma FormatInt_100: "FormatInt 100 = ''100''"
  by code_simp

lemma ParseInt_100: "ParseInt ''100'' = Some 100"
  by code_simp




lemma initGroup_found:
  assumes "err (answer env w (GetChatAdministrators (Chat_ID (Chat message)))) = None"
    and "findCreator (members (answer env w (GetChatAdministrators (Chat_ID (Chat message))))) = Some cr"
  shows "initGroup env message w =
     (case Exec env [SADD (adminKey (User_ID cr)) (Chat_ID (Chat message)),
                     HMSET (groupKey (Chat_ID (Chat message))) (Map (defaultSettings cr message))]
             (w\<lparr>trace := trace w @ [GetChatAdministrators (Chat_ID (Chat message)),
                                     Send (superGroupIntroduction (Chat_ID (Chat message)))]\<rparr>) of
        (Some e, w3) \<Rightarrow> (Fatal, w3)
      | (None, w3) \<Rightarrow> (Ret (Some (defaultSettings cr message)), w3))"
  using assms
  by (simp add: initGroup_def ask_def Let_def del: Exec.simps split: prod.splits option.splits)

lemma Exec_trace: "trace (snd (Exec env cs w)) = trace w @ map Redis cs"
  by (induction cs arbitrary: w)
    (simp_all add: ask_def Let_def split_beta split: option.splits sum.splits)

lemma clean_up_Returned:
  assumes "clean_up env message w = (Returned, w')"
  shows "\<exists>h. redis w (groupKey (Chat_ID (Chat message))) = Some (RHash h)
     \<and> redis w' (groupKey (Chat_ID (Chat message))) = None
     \<and> redis w' (whiteListKey (Chat_ID (Chat message))) = None
     \<and> (\<forall>admin. ParseInt (h_creator h) = Some admin \<longrightarrow>
            Chat_ID (Chat message) \<notin> smembers (redis w') (adminKey admin))
     \<and> (\<forall>k. k \<noteq> groupKey (Chat_ID (Chat message)) \<and> k \<noteq> whiteListKey (Chat_ID (Chat message))
            \<and> (\<forall>admin. ParseInt (h_creator h) = Some admin \<longrightarrow> k \<noteq> adminKey admin) \<longrightarrow>
            redis w' k = redis w k)
     \<and> trace w' = trace w @ Redis (HGET (groupKey (Chat_ID (Chat message))) ''creator'') #
           map Redis (cleanup_cmds (Chat_ID (Chat message)) (h_creator h))"
  using assms
  by (auto simp: clean_up_def HGet_def command_def ask_def store_defs cleanup_cmds_def
      smembers_def Let_def
      split: prod.splits option.splits sum.splits rval.splits if_splits)

lemma forget_bot_Returned:
  assumes "forget_bot env message u w = (Returned, w')"
  shows "trace w' = trace w @
           (if IsBot u then [Redis (SREM (whiteListKey (Chat_ID (Chat message))) (User_ID u))] else [])
     \<and> (\<forall>k. k \<noteq> whiteListKey (Chat_ID (Chat message)) \<longrightarrow> redis w' k = redis w k)
     \<and> (redis w (whiteListKey (Chat_ID (Chat message))) = None \<longrightarrow> redis w' = redis w)"
  using assms
  by (auto simp: forget_bot_def SRem_def command_def ask_def srem_def
      split: prod.splits option.splits sum.splits rval.splits if_splits)

lemma ParseInt_10O: "ParseInt ''10O'' = None"
  by code_simp






subsection \<open>The warn counter along the flows\<close>
















subsection \<open>No flow activates a chat\<close>


lemma na_same: "redis w' = redis w \<Longrightarrow> no_activation w w'"
  by (simp add: no_activation_def)














lemma na_ask: "ask env c w = (r, w1) \<Longrightarrow> no_activation w w1"
  by (auto simp: ask_def intro: na_same)
























section \<open>A failed store call\<close>

text \<open>
  Claim C3 as stated: a failed store call on the critical path aborts only the flow of
  its event and never terminates the process. It fails: with the store down, the
  settings read at the start of \<^verbatim>\<open>processNewUsers\<close> ends in \<^verbatim>\<open>log.Fatal\<close>, which exits
  the process.
\<close>

theorem store_failure_exits_counterexample:
  "fst (processNewUsers env_store_down 5 (message_from 200) [account 901 True] world_A) = Exited"
  by (simp add: engine_defs client_defs store_defs fixture_defs answer_def)

text \<open>
  Claim C3, amended: a failed settings read at the start of new-member processing
  terminates the process (\<^verbatim>\<open>log.Fatal\<close>) with no other call made and the store as it
  was; and when initialization has found a creator and its settings-creation batch
  reports an error, the process is terminated as well.
\<close>

theorem store_failure_ends_process:
  "(err (answer env w (Redis (HGETALL (groupKey (Chat_ID (Chat message)))))) \<noteq> None \<longrightarrow>
      processNewUsers env self message users w =
        (Exited, w\<lparr>trace := trace w @ [Redis (HGETALL (groupKey (Chat_ID (Chat message))))]\<rparr>))
   \<and> (err (answer env w (GetChatAdministrators (Chat_ID (Chat message)))) = None
      \<and> findCreator (members (answer env w (GetChatAdministrators (Chat_ID (Chat message))))) = Some cr
      \<and> fst (Exec env [SADD (adminKey (User_ID cr)) (Chat_ID (Chat message)),
                        HMSET (groupKey (Chat_ID (Chat message))) (Map (defaultSettings cr message))]
             (w\<lparr>trace := trace w @ [GetChatAdministrators (Chat_ID (Chat message)),
                                     Send (superGroupIntroduction (Chat_ID (Chat message)))]\<rparr>)) \<noteq> None
      \<longrightarrow> fst (initGroup env message w) = Fatal)"
proof (intro conjI impI)
  assume "err (answer env w (Redis (HGETALL (groupKey (Chat_ID (Chat message)))))) \<noteq> None"
  then show "processNewUsers env self message users w =
        (Exited, w\<lparr>trace := trace w @ [Redis (HGETALL (groupKey (Chat_ID (Chat message))))]\<rparr>)"
    by (auto simp: processNewUsers_def findGroupByID_def command_def ask_def)
next
  assume "err (answer env w (GetChatAdministrators (Chat_ID (Chat message)))) = None
      \<and> findCreator (members (answer env w (GetChatAdministrators (Chat_ID (Chat message))))) = Some cr
      \<and> fst (Exec env [SADD (adminKey (User_ID cr)) (Chat_ID (Chat message)),
                        HMSET (groupKey (Chat_ID (Chat message))) (Map (defaultSettings cr message))]
             (w\<lparr>trace := trace w @ [GetChatAdministrators (Chat_ID (Chat message)),
                                     Send (superGroupIntroduction (Chat_ID (Chat message)))]\<rparr>)) \<noteq> None"
  then show "fst (initGroup env message w) = Fatal"
    by (auto simp add: initGroup_found simp del: Exec.simps split: prod.splits option.splits)
qed

theorem store_failure_ends_process_witness:
  "err (answer env_store_down world_A (Redis (HGETALL (groupKey 1)))) \<noteq> None
   \<and> processNewUsers env_store_down 5 (message_from 200) [account 901 True] world_A =
       (Exited, world_A\<lparr>trace := [Redis (HGETALL (groupKey 1))]\<rparr>)
   \<and> findCreator (members (answer env_hmset_fails world_empty (GetChatAdministrators 1))) =
       Some (account 100 False)
   \<and> fst (initGroup env_hmset_fails (message_from 200) world_empty) = Fatal"
  using store_failure_ends_process [of env_store_down world_A "message_from 200" 5
      "[account 901 True]" "account 100 False"]
    store_failure_ends_process [of env_hmset_fails world_empty "message_from 200" 5 "[]"
      "account 100 False"]
  by (simp add: fixture_defs answer_def ask_def store_defs)

section \<open>Unauthorized messages\<close>

text \<open>
  Claim C5: deletion of the offending message is attempted only after the removal of
  the sender succeeded. The code does otherwise when the removal ends in an error other
  than code 400: in an active chat, for a sender that is not whitelisted, the failed
  removal is followed by the attempt to delete the message.
\<close>

theorem deletion_after_failed_removal:
  "processBotMessage env_kick_fails (message_from 901) world_A =
     (Returned,
      world_A\<lparr>trace := [Redis (HGETALL (groupKey 1)), Redis (SISMEMBER (whiteListKey 1) 901),
                        KickChatMember 1 901 400, DeleteMessage 1 7]\<rparr>)"
  by (simp add: engine_defs client_defs store_defs fixture_defs answer_def)

section \<open>The gateway wrappers\<close>


section \<open>Initialization\<close>

text \<open>
  Claim C6 as stated: the default settings and the admin-group entry are written in one
  atomic batch, and on batch failure no partial write remains. It fails: the batch is a
  pipeline, not a transaction. When the server refuses the \<^verbatim>\<open>HMSET\<close>, the \<^verbatim>\<open>SADD\<close>
  before it has taken effect: the chat is in the creator's admin-group set, the chat has
  no settings, and the process is terminated.
\<close>

theorem partial_init_counterexample:
  "fst (initGroup env_hmset_fails (message_from 200) world_empty) = Fatal
   \<and> redis (snd (initGroup env_hmset_fails (message_from 200) world_empty)) (adminKey 100) =
       Some (RSet {1})
   \<and> redis (snd (initGroup env_hmset_fails (message_from 200) world_empty)) (groupKey 1) = None"
  by (simp add: engine_defs client_defs store_defs fixture_defs answer_def)

text \<open>
  Claim C6, amended: when initialization finds a creator and returns (its batch of two
  commands reported no error), it returns exactly the default settings, the chat's
  settings hash holds exactly these with the creator in decimal, the chat ID is in that
  creator's admin-group set, no other key has changed, and the calls made are the
  administrators lookup, the introduction notice and the two commands of the batch.
\<close>

theorem initGroup_writes_defaults:
  assumes "err (answer env w (GetChatAdministrators (Chat_ID (Chat message)))) = None"
    and "findCreator (members (answer env w (GetChatAdministrators (Chat_ID (Chat message))))) = Some cr"
    and "initGroup env message w = (Ret r, w')"
  shows "r = Some \<lparr>IsActive = False, ShowWarn = True, Limit = 3, Creator = User_ID cr,
                   Title = Chat_Title (Chat message), Description = Chat_Description (Chat message)\<rparr>
     \<and> redis w' (groupKey (Chat_ID (Chat message))) =
         Some (RHash \<lparr>h_isActive = False, h_showWarn = True, h_limit = 3,
                      h_creator = FormatInt (User_ID cr), h_title = Chat_Title (Chat message),
                      h_description = Chat_Description (Chat message)\<rparr>)
     \<and> smembers (redis w') (adminKey (User_ID cr)) =
         insert (Chat_ID (Chat message)) (smembers (redis w) (adminKey (User_ID cr)))
     \<and> (\<forall>k. k \<noteq> groupKey (Chat_ID (Chat message)) \<and> k \<noteq> adminKey (User_ID cr) \<longrightarrow>
            redis w' k = redis w k)
     \<and> trace w' = trace w @
         [GetChatAdministrators (Chat_ID (Chat message)),
          Send (superGroupIntroduction (Chat_ID (Chat message))),
          Redis (SADD (adminKey (User_ID cr)) (Chat_ID (Chat message))),
          Redis (HMSET (groupKey (Chat_ID (Chat message))) (Map (defaultSettings cr message)))]"
  using assms(3) unfolding initGroup_found [OF assms(1,2)]
  by (auto simp: ask_def store_defs smembers_def defaultSettings_def Map_def Let_def
      split: prod.splits option.splits sum.splits rval.splits if_splits)

theorem initGroup_writes_defaults_witness:
  "initGroup env_init (message_from 200) world_empty =
     (Ret (Some (defaultSettings (account 100 False) (message_from 200))),
      \<lparr>redis = [adminKey 100 \<mapsto> RSet {1},
                groupKey 1 \<mapsto> RHash \<lparr>h_isActive = False, h_showWarn = True, h_limit = 3,
                                        h_creator = ''100'', h_title = ''chat'',
                                        h_description = []\<rparr>],
       trace = [GetChatAdministrators 1, Send (superGroupIntroduction 1),
                Redis (SADD (adminKey 100) 1),
                Redis (HMSET (groupKey 1)
                  \<lparr>h_isActive = False, h_showWarn = True, h_limit = 3, h_creator = ''100'',
                   h_title = ''chat'', h_description = []\<rparr>)]\<rparr>)
   \<and> smembers [adminKey 100 \<mapsto> RSet {1},
                groupKey 1 \<mapsto> RHash \<lparr>h_isActive = False, h_showWarn = True, h_limit = 3,
                                        h_creator = ''100'', h_title = ''chat'',
                                        h_description = []\<rparr>] (adminKey 100) = {1}"
proof -
  have a: "err (answer env_init world_empty (GetChatAdministrators (Chat_ID (Chat (message_from 200))))) = None"
    by (simp add: fixture_defs answer_def)
  have b: "findCreator (members (answer env_init world_empty
             (GetChatAdministrators (Chat_ID (Chat (message_from 200)))))) = Some (account 100 False)"
    by (simp add: fixture_defs answer_def)
  have c: "initGroup env_init (message_from 200) world_empty =
     (Ret (Some (defaultSettings (account 100 False) (message_from 200))),
      \<lparr>redis = [adminKey 100 \<mapsto> RSet {1},
                groupKey 1 \<mapsto> RHash \<lparr>h_isActive = False, h_showWarn = True, h_limit = 3,
                                        h_creator = ''100'', h_title = ''chat'',
                                        h_description = []\<rparr>],
       trace = [GetChatAdministrators 1, Send (superGroupIntroduction 1),
                Redis (SADD (adminKey 100) 1),
                Redis (HMSET (groupKey 1)
                  \<lparr>h_isActive = False, h_showWarn = True, h_limit = 3, h_creator = ''100'',
                   h_title = ''chat'', h_description = []\<rparr>)]\<rparr>)"
    by (simp add: engine_defs client_defs store_defs fixture_defs answer_def FormatInt_100)
  have "smembers (redis \<lparr>redis = [adminKey 100 \<mapsto> RSet {1},
                groupKey 1 \<mapsto> RHash \<lparr>h_isActive = False, h_showWarn = True, h_limit = 3,
                                        h_creator = ''100'', h_title = ''chat'',
                                        h_description = []\<rparr>],
       trace = [GetChatAdministrators 1, Send (superGroupIntroduction 1),
                Redis (SADD (adminKey 100) 1),
                Redis (HMSET (groupKey 1)
                  \<lparr>h_isActive = False, h_showWarn = True, h_limit = 3, h_creator = ''100'',
                   h_title = ''chat'', h_description = []\<rparr>)]\<rparr>) (adminKey (User_ID (account 100 False))) =
         insert (Chat_ID (Chat (message_from 200))) (smembers (redis world_empty) (adminKey (User_ID (account 100 False))))"
    using initGroup_writes_defaults [OF a b c] by blast
  then have "smembers [adminKey 100 \<mapsto> RSet {1},
                groupKey 1 \<mapsto> RHash \<lparr>h_isActive = False, h_showWarn = True, h_limit = 3,
                                        h_creator = ''100'', h_title = ''chat'',
                                        h_description = []\<rparr>] (adminKey 100) = {1}"
    by (simp add: account_def message_from_def world_empty_def smembers_def)
  with c show ?thesis by blast
qed

section \<open>The moderator leaves\<close>

text \<open>
  Claim C7 as stated: the settings key and the whitelist key are deleted and the chat ID
  is removed from the creator's admin-group set, all in one atomic batch. It fails: the
  batch is a pipeline, not a transaction. When the server refuses the second \<^verbatim>\<open>DEL\<close>,
  the settings are gone, the whitelist is still there, and the process is terminated.
\<close>

theorem partial_cleanup_counterexample:
  "fst (processLeftUser env_second_del_fails 5 (message_from 5) (account 5 True) world_L) = Exited
   \<and> redis (snd (processLeftUser env_second_del_fails 5 (message_from 5) (account 5 True) world_L))
        (groupKey 1) = None
   \<and> redis (snd (processLeftUser env_second_del_fails 5 (message_from 5) (account 5 True) world_L))
        (whiteListKey 1) = Some (RSet {777})"
  by (simp add: engine_defs client_defs store_defs fixture_defs answer_def ParseInt_100)

text \<open>
  Claim C7, amended: when the departing member is the moderator itself and the flow
  returns (the creator field was read and the batch reported no error), the chat had a
  settings hash, its settings key and whitelist key are absent afterwards, the chat ID
  is not in the admin-group set of the creator the stored field parses to, and no other
  key has changed. The commands of the batch are the two deletions and, only if the
  stored creator parses, the removal from the admin-group set: an unparsable creator
  leaves out that removal alone.
\<close>

theorem cleanup_on_moderator_leave:
  assumes "self = User_ID leftChatMember"
    and "processLeftUser env self message leftChatMember w = (Returned, w')"
  shows "\<exists>h. redis w (groupKey (Chat_ID (Chat message))) = Some (RHash h)
     \<and> redis w' (groupKey (Chat_ID (Chat message))) = None
     \<and> redis w' (whiteListKey (Chat_ID (Chat message))) = None
     \<and> (\<forall>admin. ParseInt (h_creator h) = Some admin \<longrightarrow>
            Chat_ID (Chat message) \<notin> smembers (redis w') (adminKey admin))
     \<and> (\<forall>k. k \<noteq> groupKey (Chat_ID (Chat message)) \<and> k \<noteq> whiteListKey (Chat_ID (Chat message))
            \<and> (\<forall>admin. ParseInt (h_creator h) = Some admin \<longrightarrow> k \<noteq> adminKey admin) \<longrightarrow>
            redis w' k = redis w k)
     \<and> trace w' = trace w @ Redis (HGET (groupKey (Chat_ID (Chat message))) ''creator'') #
           map Redis (cleanup_cmds (Chat_ID (Chat message)) (h_creator h)) @
           (if IsBot leftChatMember
            then [Redis (SREM (whiteListKey (Chat_ID (Chat message))) (User_ID leftChatMember))]
            else [])"
proof -
  obtain w1 where c: "clean_up env message w = (Returned, w1)"
    and f: "forget_bot env message leftChatMember w1 = (Returned, w')"
    using assms by (auto simp: processLeftUser_def split: prod.splits outcome.splits)
  from clean_up_Returned [OF c] obtain h where
    h: "redis w (groupKey (Chat_ID (Chat message))) = Some (RHash h)"
      "redis w1 (groupKey (Chat_ID (Chat message))) = None"
      "redis w1 (whiteListKey (Chat_ID (Chat message))) = None"
      "\<forall>admin. ParseInt (h_creator h) = Some admin \<longrightarrow>
            Chat_ID (Chat message) \<notin> smembers (redis w1) (adminKey admin)"
      "\<forall>k. k \<noteq> groupKey (Chat_ID (Chat message)) \<and> k \<noteq> whiteListKey (Chat_ID (Chat message))
            \<and> (\<forall>admin. ParseInt (h_creator h) = Some admin \<longrightarrow> k \<noteq> adminKey admin) \<longrightarrow>
            redis w1 k = redis w k"
      "trace w1 = trace w @ Redis (HGET (groupKey (Chat_ID (Chat message))) ''creator'') #
           map Redis (cleanup_cmds (Chat_ID (Chat message)) (h_creator h))"
    by blast
  from forget_bot_Returned [OF f] h(3) have
    r: "redis w' = redis w1"
    and t: "trace w' = trace w1 @
           (if IsBot leftChatMember
            then [Redis (SREM (whiteListKey (Chat_ID (Chat message))) (User_ID leftChatMember))]
            else [])"
    by simp_all
  show ?thesis
    using h by (intro exI [of _ h]) (simp add: r t)
qed

theorem cleanup_on_moderator_leave_witness:
  "processLeftUser env_ok 5 (message_from 5) (account 5 True) world_L =
     (Returned,
      \<lparr>redis = Map.empty,
       trace = [Redis (HGET (groupKey 1) ''creator''), Redis (DEL (groupKey 1)),
                Redis (DEL (whiteListKey 1)), Redis (SREM (adminKey 100) 1),
                Redis (SREM (whiteListKey 1) 5)]\<rparr>)
   \<and> processLeftUser env_ok 5 (message_from 5) (account 5 True) world_corrupt =
     (Returned,
      \<lparr>redis = [adminKey 100 \<mapsto> RSet {1}],
       trace = [Redis (HGET (groupKey 1) ''creator''), Redis (DEL (groupKey 1)),
                Redis (DEL (whiteListKey 1)), Redis (SREM (whiteListKey 1) 5)]\<rparr>)"
proof -
  have a: "processLeftUser env_ok 5 (message_from 5) (account 5 True) world_L =
     (Returned,
      \<lparr>redis = Map.empty,
       trace = [Redis (HGET (groupKey 1) ''creator''), Redis (DEL (groupKey 1)),
                Redis (DEL (whiteListKey 1)), Redis (SREM (adminKey 100) 1),
                Redis (SREM (whiteListKey 1) 5)]\<rparr>)"
    by (simp add: engine_defs client_defs store_defs fixture_defs answer_def ParseInt_100)
  have b: "processLeftUser env_ok 5 (message_from 5) (account 5 True) world_corrupt =
     (Returned,
      \<lparr>redis = [adminKey 100 \<mapsto> RSet {1}],
       trace = [Redis (HGET (groupKey 1) ''creator''), Redis (DEL (groupKey 1)),
                Redis (DEL (whiteListKey 1)), Redis (SREM (whiteListKey 1) 5)]\<rparr>)"
    by (simp add: engine_defs client_defs store_defs fixture_defs answer_def ParseInt_10O fun_eq_iff)
  from cleanup_on_moderator_leave [OF _ a] cleanup_on_moderator_leave [OF _ b] a b
  show ?thesis by (simp add: account_def)
qed

section \<open>The whitelist add of the creator path\<close>

text \<open>
  Claim C9: adding an account that is already in the chat's whitelist through the
  creator path is a no-op, the store is as it was and the only call is the \<^verbatim>\<open>SADD\<close>,
  no notice; adding an account not yet listed puts it into the set and sends exactly
  one notice, the confirmation. Either way the account is listed afterwards, so adding
  it again is the no-op. (The store accepts the command: the whitelist key holds a set
  or nothing.)
\<close>

theorem whitelist_add_idempotent:
  assumes "err (answer env w (Redis (SADD (whiteListKey (Chat_ID (Chat message))) (User_ID user)))) = None"
    and "sadd (whiteListKey (Chat_ID (Chat message))) (User_ID user) (redis w) = Inr (added, st)"
  shows "(User_ID user \<in> smembers (redis w) (whiteListKey (Chat_ID (Chat message))) \<longrightarrow>
            add_to_whitelist env message user w =
              (Returned,
               w\<lparr>trace := trace w @
                    [Redis (SADD (whiteListKey (Chat_ID (Chat message))) (User_ID user))]\<rparr>))
     \<and> (User_ID user \<notin> smembers (redis w) (whiteListKey (Chat_ID (Chat message))) \<longrightarrow>
            add_to_whitelist env message user w =
              (Returned,
               \<lparr>redis = (redis w)(whiteListKey (Chat_ID (Chat message)) \<mapsto>
                    RSet (insert (User_ID user)
                       (smembers (redis w) (whiteListKey (Chat_ID (Chat message)))))),
                trace = trace w @
                    [Redis (SADD (whiteListKey (Chat_ID (Chat message))) (User_ID user)),
                     Send (botAddedToWhitelist (Chat_ID (Chat message)) (MessageID message)
                             (UserName user))]\<rparr>))
     \<and> User_ID user \<in> smembers (redis (snd (add_to_whitelist env message user w)))
           (whiteListKey (Chat_ID (Chat message)))"
  using assms
  by (auto simp: add_to_whitelist_def SAdd_def command_def ask_def sadd_def smembers_def
      insert_absorb map_upd_triv
      split: option.splits rval.splits if_splits)

theorem whitelist_add_idempotent_witness:
  "add_to_whitelist env_ok (message_from 100) (account 777 True) world_L =
     (Returned, world_L\<lparr>trace := [Redis (SADD (whiteListKey 1) 777)]\<rparr>)
   \<and> add_to_whitelist env_ok (message_from 100) (account 901 True) world_L =
     (Returned,
      \<lparr>redis = (redis world_L)(whiteListKey 1 \<mapsto> RSet {901, 777}),
       trace = [Redis (SADD (whiteListKey 1) 901), Send (botAddedToWhitelist 1 7 ''account'')]\<rparr>)"
proof -
  have a: "err (answer env_ok world_L (Redis (SADD (whiteListKey (Chat_ID (Chat (message_from 100))))
             (User_ID (account n True))))) = None" for n
    by (simp add: fixture_defs answer_def)
  have b: "sadd (whiteListKey (Chat_ID (Chat (message_from 100)))) (User_ID (account 777 True))
             (redis world_L) = Inr (0, (redis world_L)(whiteListKey 1 \<mapsto> RSet {777}))"
    by (simp add: fixture_defs sadd_def)
  have c: "sadd (whiteListKey (Chat_ID (Chat (message_from 100)))) (User_ID (account 901 True))
             (redis world_L) = Inr (1, (redis world_L)(whiteListKey 1 \<mapsto> RSet {901, 777}))"
    by (simp add: fixture_defs sadd_def)
  have m: "smembers (redis world_L) (whiteListKey 1) = {777}"
    by (simp add: fixture_defs smembers_def)
  have t: "trace world_L = []"
    by (simp add: world_L_def)
  from whitelist_add_idempotent [OF a b] whitelist_add_idempotent [OF a c] m
  show ?thesis
    by (simp add: account_def message_from_def t)
qed

section \<open>The warn limit\<close>

text \<open>
  Claim C8: after a successful removal of a joined account, when the incremented warn
  counter \<open>n\<close> has reached the limit of the settings, the next call is the attempt to
  remove the originating actor; the counter entry is deleted exactly when that removal
  succeeded (after a denial the chat is deactivated instead, after an error nothing
  follows), and it is then absent from the store, while after a removal that did not
  succeed the entry still holds \<open>n\<close>.
\<close>

theorem actor_removed_at_limit:
  assumes "err (answer env w (Redis (INCR (membersKey (Chat_ID (Chat message)) (User_ID (From message)))))) = None"
    and "incr (membersKey (Chat_ID (Chat message)) (User_ID (From message))) (redis w) = Inr (n, st)"
    and "Limit gs \<le> n"
    and "w1 = \<lparr>redis = st, trace = trace w @
            [Redis (INCR (membersKey (Chat_ID (Chat message)) (User_ID (From message)))),
             KickChatMember (Chat_ID (Chat message)) (User_ID (From message)) 400]\<rparr>"
    and "r = env (Suc (length (trace w)))
               (KickChatMember (Chat_ID (Chat message)) (User_ID (From message)) 400)"
    and "after_bot_kick env gs message (True, None) w = (out, w')"
  shows "trace w' = trace w1 @
           (if removed r
            then [Redis (DEL (membersKey (Chat_ID (Chat message)) (User_ID (From message))))]
            else if ErrorCode r = 400 \<or> err r = None
            then [Redis (HSET (groupKey (Chat_ID (Chat message))) ''isActive'' False)]
            else [])
     \<and> (removed r \<and> err (answer env w1
            (Redis (DEL (membersKey (Chat_ID (Chat message)) (User_ID (From message)))))) = None \<longrightarrow>
          out = Returned
          \<and> redis w' (membersKey (Chat_ID (Chat message)) (User_ID (From message))) = None)
     \<and> (\<not> removed r \<longrightarrow>
          redis w' (membersKey (Chat_ID (Chat message)) (User_ID (From message))) = Some (RInt n))"
  using assms
  by (auto simp: after_bot_kick_def incrementMemberWarns_def command_def ask_def answer_def
      after_increment_def kickUser_def after_actor_kick_def removed_def deactivate_def
      changeGroupActiveStatus_def Del_def del_def hset_def incr_def
      split: option.splits rval.splits if_splits sum.splits prod.splits)

theorem actor_removed_at_limit_witness:
  "Limit settings_A \<le> 3
   \<and> fst (after_bot_kick env_ok settings_A (message_from 200) (True, None) world_B) = Returned
   \<and> redis (snd (after_bot_kick env_ok settings_A (message_from 200) (True, None) world_B))
        (membersKey 1 200) = None
   \<and> trace (snd (after_bot_kick env_ok settings_A (message_from 200) (True, None) world_B)) =
        [Redis (INCR (membersKey 1 200)), KickChatMember 1 200 400, Redis (DEL (membersKey 1 200))]"
proof -
  have a: "err (answer env_ok world_B (Redis (INCR (membersKey (Chat_ID (Chat (message_from 200)))
             (User_ID (From (message_from 200))))))) = None"
    by (simp add: fixture_defs answer_def)
  have b: "incr (membersKey (Chat_ID (Chat (message_from 200))) (User_ID (From (message_from 200))))
             (redis world_B) = Inr (3, (redis world_B)(membersKey 1 200 \<mapsto> RInt 3))"
    by (simp add: fixture_defs incr_def)
  have c: "Limit settings_A \<le> 3"
    by (simp add: settings_A_def)
  have r: "removed (env_ok n k)" for n k
    by (simp add: env_ok_def reply_ok_def removed_def)
  have e: "err (answer env_ok v k) = None" for v k
    by (simp add: env_ok_def reply_ok_def answer_def)
  have t: "trace world_B = []"
    by (simp add: world_B_def)
  from actor_removed_at_limit [OF a b c refl refl surjective_pairing] r e c
  show ?thesis
    by (simp add: account_def message_from_def t)
qed

section \<open>Accounts added by the creator\<close>



section \<open>The bound of the warn counter\<close>




section \<open>Deactivation on a denied removal\<close>



end
